theory Spec2Isabelle
  imports Main "HOL-Library.Sublist"
begin

section \<open>Voice handlers and access check of the Fonoster API server\<close>

text \<open>
  The development embeds three functions of the repository:
  \<^item> \<open>streamHandler\<close> and \<open>hangupHandler\<close> of
    \<^verbatim>\<open>mods/apiserver/src/voice/handlers\<close>, as state-passing functions over a
    log of the calls made on the collaborators (ARI client, voice client);
  \<^item> \<open>hasAccess\<close> of \<^verbatim>\<open>mods/common/src/identity/hasAccess.ts\<close>, as a pure
    function over the roles table.
  JavaScript values that may be \<^verbatim>\<open>undefined\<close> are \<open>option\<close>s, thrown exceptions
  are the left summand of the result.
\<close>

subsection \<open>Enumerations imported from the common package\<close>

text \<open>
  Modelled from the spec: the string enum \<^verbatim>\<open>StreamDirection\<close> is declared in the
  common package, outside the sources at hand. The spec gives its members as
  \<^verbatim>\<open>enum[IN,OUT,BOTH]\<close>; each member is its own name as a string, which is what
  the handler relies on when it calls \<^verbatim>\<open>includes\<close> on a direction.
\<close>

definition StreamDirection_IN :: string where
  "StreamDirection_IN = ''IN''"

definition StreamDirection_OUT :: string where
  "StreamDirection_OUT = ''OUT''"

definition StreamDirection_BOTH :: string where
  "StreamDirection_BOTH = ''BOTH''"

definition StreamDirection_values :: "string list" where
  "StreamDirection_values = [StreamDirection_IN, StreamDirection_OUT, StreamDirection_BOTH]"

text \<open>
  Modelled from the spec: the string enum \<^verbatim>\<open>StreamAudioFormat\<close>, also of the common
  package; the spec names the members \<^verbatim>\<open>WAV\<close> and \<^verbatim>\<open>PCM\<close>.
\<close>

definition StreamAudioFormat_WAV :: string where
  "StreamAudioFormat_WAV = ''WAV''"

definition StreamAudioFormat_PCM :: string where
  "StreamAudioFormat_PCM = ''PCM''"

definition StreamAudioFormat_values :: "string list" where
  "StreamAudioFormat_values = [StreamAudioFormat_WAV, StreamAudioFormat_PCM]"

text \<open>
  Modelled from the spec: the member \<^verbatim>\<open>AUDIO_OUT\<close> of the string enum
  \<^verbatim>\<open>StreamMessageType\<close> of the common package.
\<close>

definition StreamMessageType_AUDIO_OUT :: string where
  "StreamMessageType_AUDIO_OUT = ''AUDIO_OUT''"

subsection \<open>Requests and responses\<close>

text \<open>
  \<^verbatim>\<open>VerbRequest\<close> carries the session reference; \<^verbatim>\<open>StartStreamRequest\<close> adds the
  two optional fields. The fields hold what arrives at run time: \<open>None\<close> is an absent
  (\<^verbatim>\<open>undefined\<close>) field and a present field is any string, inside the enum or not.
\<close>

record VerbRequest =
  sessionRef :: "string option"

record StartStreamRequest = VerbRequest +
  direction :: "string option"
  format :: "string option"

text \<open>The payloads handed to \<^verbatim>\<open>voiceClient.sendResponse\<close>, one constructor per key.\<close>

datatype 'd response =
    StreamPayload "string option" string 'd string string
      \<comment> \<open>sessionRef, type, data, streamRef, format\<close>
  | StartStreamResponse "string option" string
      \<comment> \<open>sessionRef, streamRef\<close>
  | HangupResponse "string option"
      \<comment> \<open>sessionRef\<close>

subsection \<open>Collaborators: the ARI client and the voice client\<close>

text \<open>
  The callback registered by \<open>streamHandler\<close> on the transcriptions stream is a closure
  over \<^verbatim>\<open>sessionRef\<close> and \<^verbatim>\<open>effectiveFormat\<close>; it is represented by the two
  captured values.
\<close>

datatype listener = StreamPayloadListener "string option" string

text \<open>The calls a handler makes on its collaborators, in the order it makes them.\<close>

datatype 'd call =
    AriHangup "string option"      \<comment> \<open>\<^verbatim>\<open>ari.channels.hangup({ channelId })\<close>\<close>
  | OnData listener                \<comment> \<open>\<^verbatim>\<open>getTranscriptionsStream().on("data", cb)\<close>\<close>
  | SendResponse "'d response"     \<comment> \<open>\<^verbatim>\<open>voiceClient.sendResponse(r)\<close>\<close>
  | Close                          \<comment> \<open>\<^verbatim>\<open>voiceClient.close()\<close>\<close>

record 'd world =
  calls :: "'d call list"
  listeners :: "listener list"

text \<open>Exceptions: the one \<^verbatim>\<open>zod\<close> throws from \<^verbatim>\<open>parse\<close>, with the names of the
  offending fields, and the ones a collaborator may throw.\<close>

datatype fault =
    ZodError "string list"
  | AriFault
  | ResponseChannelFault
  | CloseFault

text \<open>
  The collaborators are external. How each call ends is a parameter of the model:
  \<^verbatim>\<open>ari.channels.hangup\<close> returns a promise that the handler does not await, so it
  may resolve, reject later, or throw at the call; \<^verbatim>\<open>sendResponse\<close> and
  \<^verbatim>\<open>close\<close> return or throw.
\<close>

datatype ari_outcome = Resolves | Rejects | ThrowsSync

record 'd env =
  hangup_outcome :: "string option \<Rightarrow> ari_outcome"
  sendResponse_throws :: "'d response \<Rightarrow> bool"
  close_throws :: bool

type_synonym ('d, 'a) action = "'d world \<Rightarrow> (fault + 'a) \<times> 'd world"

definition log_call :: "'d call \<Rightarrow> 'd world \<Rightarrow> 'd world" where
  "log_call c w = w\<lparr>calls := calls w @ [c]\<rparr>"

definition ari_channels_hangup :: "'d env \<Rightarrow> string option \<Rightarrow> ('d, unit) action" where
  "ari_channels_hangup env channelId w =
     (if hangup_outcome env channelId = ThrowsSync then Inl AriFault else Inr (),
      log_call (AriHangup channelId) w)"

definition sendResponse :: "'d env \<Rightarrow> 'd response \<Rightarrow> ('d, unit) action" where
  "sendResponse env r w =
     (if sendResponse_throws env r then Inl ResponseChannelFault else Inr (),
      log_call (SendResponse r) w)"

definition voiceClient_close :: "'d env \<Rightarrow> ('d, unit) action" where
  "voiceClient_close env w =
     (if close_throws env then Inl CloseFault else Inr (), log_call Close w)"

definition transcriptions_on_data :: "listener \<Rightarrow> 'd world \<Rightarrow> 'd world" where
  "transcriptions_on_data l w = (log_call (OnData l) w)\<lparr>listeners := listeners w @ [l]\<rparr>"

text \<open>Statement sequencing: a throw skips the rest, the effects made so far stay.\<close>

definition seq :: "('d, 'a) action \<Rightarrow> ('d, 'b) action \<Rightarrow> ('d, 'b) action" where
  "seq f g w = (case f w of (Inl e, w') \<Rightarrow> (Inl e, w') | (Inr _, w') \<Rightarrow> g w')"

subsection \<open>The start-stream handler\<close>

text \<open>
  \<^verbatim>\<open>z.object({ direction: z.nativeEnum(StreamDirection).optional(),
              format: z.nativeEnum(StreamAudioFormat).optional() })\<close>:
  an absent field passes, a present one must be a member of its enum. The schema has no
  entry for \<^verbatim>\<open>sessionRef\<close>. \<^verbatim>\<open>parse\<close> throws a \<open>ZodError\<close> listing every
  offending field, in the order of the schema.
\<close>

definition nativeEnum_optional :: "string list \<Rightarrow> string option \<Rightarrow> bool" where
  "nativeEnum_optional members v = (case v of None \<Rightarrow> True | Some s \<Rightarrow> s \<in> set members)"

definition streamRequestSchema_issues :: "StartStreamRequest \<Rightarrow> string list" where
  "streamRequestSchema_issues request =
     (if nativeEnum_optional StreamDirection_values (direction request) then [] else [''direction'']) @
     (if nativeEnum_optional StreamAudioFormat_values (format request) then [] else [''format''])"

definition streamRequestSchema_parse :: "StartStreamRequest \<Rightarrow> fault + unit" where
  "streamRequestSchema_parse request =
     (if streamRequestSchema_issues request = [] then Inr ()
      else Inl (ZodError (streamRequestSchema_issues request)))"

text \<open>\<^verbatim>\<open>v || dflt\<close> on an optional string: \<^verbatim>\<open>undefined\<close> and the empty string are falsy.\<close>

definition or_default :: "string option \<Rightarrow> string \<Rightarrow> string" where
  "or_default v dflt = (case v of None \<Rightarrow> dflt | Some s \<Rightarrow> if s = [] then dflt else s)"

text \<open>\<^verbatim>\<open>s.includes(t)\<close>: \<open>t\<close> occurs in \<open>s\<close> as a contiguous substring.\<close>

definition str_includes :: "string \<Rightarrow> string \<Rightarrow> bool" where
  "str_includes s t = sublist t s"

text \<open>The function that \<open>streamHandler\<close> passes to \<^verbatim>\<open>withErrorHandling\<close>.\<close>

definition streamHandler_body :: "'d env \<Rightarrow> StartStreamRequest \<Rightarrow> ('d, unit) action" where
  "streamHandler_body env request w =
     (case streamRequestSchema_parse request of
        Inl e \<Rightarrow> (Inl e, w)
      | Inr _ \<Rightarrow>
          (let effectiveDirection = or_default (direction request) StreamDirection_BOTH;
               effectiveFormat = or_default (format request) StreamAudioFormat_WAV;
               w1 = (if str_includes effectiveDirection StreamDirection_OUT
                        \<or> effectiveDirection = StreamDirection_BOTH
                     then transcriptions_on_data
                            (StreamPayloadListener (sessionRef request) effectiveFormat) w
                     else w)
           in sendResponse env (StartStreamResponse (sessionRef request) ''fixme'') w1))"

text \<open>
  Modelled from the spec: \<^verbatim>\<open>withErrorHandling\<close> lives in
  \<^verbatim>\<open>./utils/withErrorHandling\<close>, outside the sources at hand. The spec describes it
  as the uniform wrapper by which handler errors "are caught and converted to an error
  response" and never propagate past the dispatch boundary. The wrapped handler
  therefore ends with \<open>Completed\<close> or with an \<open>ErrorResponse\<close> built from the
  exception; \<open>Inl\<close> would be an exception escaping the wrapper.
\<close>

datatype handler_result = Completed | ErrorResponse fault

definition withErrorHandling ::
  "('r \<Rightarrow> ('d, unit) action) \<Rightarrow> 'r \<Rightarrow> ('d, handler_result) action" where
  "withErrorHandling handler request w =
     (case handler request w of
        (Inl err, w') \<Rightarrow> (Inr (ErrorResponse err), w')
      | (Inr _, w') \<Rightarrow> (Inr Completed, w'))"

definition streamHandler :: "'d env \<Rightarrow> StartStreamRequest \<Rightarrow> ('d, handler_result) action" where
  "streamHandler env = withErrorHandling (streamHandler_body env)"

text \<open>
  The transcriptions stream emitting a chunk: every registered listener is called with
  it, in registration order; the callback of \<open>streamHandler\<close> sends one
  \<^verbatim>\<open>streamPayload\<close>. A throwing listener ends the emission. The body of
  \<open>streamHandler\<close> has no \<^verbatim>\<open>await\<close>: it runs to its end in one turn of the event
  loop, so the stream emits only before or after a handler run, never inside one.
\<close>

fun call_listener :: "'d env \<Rightarrow> listener \<Rightarrow> 'd \<Rightarrow> ('d, unit) action" where
  "call_listener env (StreamPayloadListener sref fmt) data w =
     sendResponse env
       (StreamPayload sref StreamMessageType_AUDIO_OUT data ''fixme'' fmt) w"

fun emit_to :: "'d env \<Rightarrow> 'd \<Rightarrow> listener list \<Rightarrow> ('d, unit) action" where
  "emit_to env data [] w = (Inr (), w)"
| "emit_to env data (l # ls) w = seq (call_listener env l data) (emit_to env data ls) w"

definition emit_data :: "'d env \<Rightarrow> 'd \<Rightarrow> ('d, unit) action" where
  "emit_data env data w = emit_to env data (listeners w) w"

fun emit_all :: "'d env \<Rightarrow> 'd list \<Rightarrow> ('d, unit) action" where
  "emit_all env [] w = (Inr (), w)"
| "emit_all env (data # rest) w = seq (emit_data env data) (emit_all env rest) w"

subsection \<open>The hangup handler\<close>

text \<open>
  \<open>voiceClient\<close> is \<open>True\<close> when the reference handed to \<open>hangupHandler\<close> is an
  object and \<open>False\<close> when it is \<^verbatim>\<open>null\<close> or \<^verbatim>\<open>undefined\<close>, which is all the
  guard \<^verbatim>\<open>if (voiceClient)\<close> looks at. The promise returned by
  \<^verbatim>\<open>ari.channels.hangup\<close> is dropped.
\<close>

definition hangupHandler :: "'d env \<Rightarrow> bool \<Rightarrow> VerbRequest \<Rightarrow> ('d, unit) action" where
  "hangupHandler env voiceClient hangupReq w =
     (if voiceClient then
        seq (ari_channels_hangup env (sessionRef hangupReq))
          (seq (sendResponse env (HangupResponse (sessionRef hangupReq)))
             (voiceClient_close env)) w
      else (Inr (), w))"

text \<open>The calls a handler run added to the log.\<close>

definition new_calls :: "'d world \<Rightarrow> 'd world \<Rightarrow> 'd call list" where
  "new_calls w w' = drop (length (calls w)) (calls w')"

subsection \<open>Access check\<close>

text \<open>
  \<^verbatim>\<open>Access\<close> and \<^verbatim>\<open>Role\<close> are declared in \<^verbatim>\<open>./types\<close>; the records hold the
  fields \<open>hasAccess\<close> reads. The roles table of \<^verbatim>\<open>./roles\<close> is a parameter.
  The source's parameter \<^verbatim>\<open>access\<close> is \<open>acc\<close> here, \<open>access\<close> being the field of
  a role.
\<close>

record Access =
  role :: string

record Role =
  name :: string
  access :: "string list"

text \<open>
  \<^verbatim>\<open>roles.find(p)\<close> is the first role satisfying \<open>p\<close> or \<^verbatim>\<open>undefined\<close>;
  \<^verbatim>\<open>some\<close> reads it as a boolean, and an object is truthy.
\<close>

definition hasAccess :: "Role list \<Rightarrow> Access list \<Rightarrow> string \<Rightarrow> bool" where
  "hasAccess roles acc method =
     (let roleList = map role acc
      in list_ex (\<lambda>r. find (\<lambda>rl. name rl = r \<and> method \<in> set (access rl)) roles \<noteq> None)
           roleList)"

subsection \<open>Fixtures and observers used in the statements\<close>

text \<open>Collaborators that never throw, and a session on which nothing has happened yet.\<close>

definition quiet_env :: "string env" where
  "quiet_env = \<lparr>hangup_outcome = (\<lambda>_. Resolves), sendResponse_throws = (\<lambda>_. False),
     close_throws = False\<rparr>"

definition fresh_world :: "string world" where
  "fresh_world = \<lparr>calls = [], listeners = []\<rparr>"



text \<open>The call by which a listener answers a chunk: the \<^verbatim>\<open>sendResponse\<close> of its
  callback, with the values the closure captured.\<close>

fun listener_payload :: "'d \<Rightarrow> listener \<Rightarrow> 'd call" where
  "listener_payload data (StreamPayloadListener sref fmt) =
     SendResponse (StreamPayload sref StreamMessageType_AUDIO_OUT data ''fixme'' fmt)"

section \<open>Properties\<close>

subsection \<open>Evaluation and helper facts\<close>

lemmas handler_defs = streamHandler_def withErrorHandling_def streamHandler_body_def
  streamRequestSchema_parse_def streamRequestSchema_issues_def nativeEnum_optional_def
  StreamDirection_values_def StreamAudioFormat_values_def StreamDirection_IN_def
  StreamDirection_OUT_def StreamDirection_BOTH_def StreamAudioFormat_WAV_def
  StreamAudioFormat_PCM_def StreamMessageType_AUDIO_OUT_def or_default_def str_includes_def
  sendResponse_def transcriptions_on_data_def log_call_def new_calls_def seq_def
  emit_data_def hangupHandler_def ari_channels_hangup_def voiceClient_close_def
  quiet_env_def fresh_world_def Let_def









lemma streamHandler_listeners:
  assumes "streamRequestSchema_parse request = Inr ()"
      and "or_default (direction request) StreamDirection_BOTH = StreamDirection_OUT
           \<or> or_default (direction request) StreamDirection_BOTH = StreamDirection_BOTH"
  shows "listeners (snd (streamHandler env request w)) =
     listeners w @ [StreamPayloadListener (sessionRef request)
        (or_default (format request) StreamAudioFormat_WAV)]"
  using assms
  by (auto simp: streamHandler_def withErrorHandling_def streamHandler_body_def Let_def
      sendResponse_def transcriptions_on_data_def log_call_def str_includes_def split: prod.splits)

text \<open>With a response channel that accepts every message, a chunk is answered by every
  registered listener, in registration order, and a run of chunks chunk by chunk.\<close>

lemma call_listener_quiet:
  assumes "\<And>r. \<not> sendResponse_throws env r"
  shows "call_listener env l d w = (Inr (), log_call (listener_payload d l) w)"
  using assms by (cases l) (simp add: sendResponse_def)

lemma emit_to_quiet:
  assumes quiet: "\<And>r. \<not> sendResponse_throws env r"
  shows "emit_to env d ls w = (Inr (), w\<lparr>calls := calls w @ map (listener_payload d) ls\<rparr>)"
proof (induction ls arbitrary: w)
  case Nil
  show ?case by simp
next
  case (Cons l ls)
  have "emit_to env d (l # ls) w = emit_to env d ls (log_call (listener_payload d l) w)"
    by (simp add: seq_def call_listener_quiet [OF quiet])
  also have "\<dots> = (Inr (), (log_call (listener_payload d l) w)
      \<lparr>calls := calls (log_call (listener_payload d l) w) @ map (listener_payload d) ls\<rparr>)"
    by (rule Cons.IH)
  finally show ?case by (simp add: log_call_def)
qed

lemma emit_all_quiet:
  assumes quiet: "\<And>r. \<not> sendResponse_throws env r"
  shows "emit_all env chunks w =
     (Inr (), w\<lparr>calls := calls w @
        concat (map (\<lambda>d. map (listener_payload d) (listeners w)) chunks)\<rparr>)"
proof (induction chunks arbitrary: w)
  case Nil
  show ?case by simp
next
  case (Cons d ds)
  let ?w1 = "w\<lparr>calls := calls w @ map (listener_payload d) (listeners w)\<rparr>"
  have step: "emit_data env d w = (Inr (), ?w1)"
    by (simp add: emit_data_def emit_to_quiet [OF quiet])
  have "emit_all env (d # ds) w = emit_all env ds ?w1"
    using step by (simp add: seq_def)
  also have "\<dots> = (Inr (), ?w1\<lparr>calls := calls ?w1 @
        concat (map (\<lambda>d. map (listener_payload d) (listeners ?w1)) ds)\<rparr>)"
    by (rule Cons.IH)
  finally show ?case by simp
qed

subsection \<open>The hangup handler\<close>

text \<open>
  Claim C5. When no voice client exists for the session (the reference handed to
  \<open>hangupHandler\<close> is \<^verbatim>\<open>null\<close> or \<^verbatim>\<open>undefined\<close>), the handler returns
  normally and does nothing: no hangup is issued on the ARI client, no
  \<^verbatim>\<open>hangupResponse\<close> is sent and \<^verbatim>\<open>close\<close> is not called. This holds whatever the
  collaborators would do and whatever the request is.
\<close>

theorem hangupHandler_noop_without_voiceClient:
  "hangupHandler env False hangupReq w = (Inr (), w)"
  by (simp add: hangupHandler_def)

text \<open>
  Claim C6. On an active session whose collaborators do not throw, \<open>hangupHandler\<close>
  makes exactly three calls, in this order: the ARI hangup of the channel whose id is
  the request's \<^verbatim>\<open>sessionRef\<close>, the sending of a \<^verbatim>\<open>hangupResponse\<close> with that
  \<^verbatim>\<open>sessionRef\<close>, and the close of the voice client; then it returns normally. The
  hangup promise may resolve or reject, it is not awaited.
\<close>

theorem hangupHandler_sequence:
  assumes "hangup_outcome env (sessionRef hangupReq) \<noteq> ThrowsSync"
      and "\<not> sendResponse_throws env (HangupResponse (sessionRef hangupReq))"
      and "\<not> close_throws env"
  shows "hangupHandler env True hangupReq w =
     (Inr (), w\<lparr>calls := calls w @ [AriHangup (sessionRef hangupReq),
         SendResponse (HangupResponse (sessionRef hangupReq)), Close]\<rparr>)"
  using assms
  by (simp add: hangupHandler_def seq_def ari_channels_hangup_def sendResponse_def
      voiceClient_close_def log_call_def)

theorem hangupHandler_sequence_witness:
  "hangup_outcome quiet_env (sessionRef \<lparr>sessionRef = Some ''S2''\<rparr>) \<noteq> ThrowsSync
   \<and> \<not> sendResponse_throws quiet_env (HangupResponse (Some ''S2''))
   \<and> \<not> close_throws quiet_env
   \<and> hangupHandler quiet_env True \<lparr>sessionRef = Some ''S2''\<rparr> fresh_world =
       (Inr (), \<lparr>calls = [AriHangup (Some ''S2''), SendResponse (HangupResponse (Some ''S2'')),
                           Close],
                  listeners = []\<rparr>)"
  using hangupHandler_sequence
    [where env = quiet_env and hangupReq = "\<lparr>sessionRef = Some ''S2''\<rparr>" and w = fresh_world]
  by (simp add: quiet_env_def fresh_world_def)

text \<open>
  Claim C4, as stated: if the ARI hangup or the sending of the \<^verbatim>\<open>hangupResponse\<close>
  fails, \<^verbatim>\<open>voiceClient.close()\<close> is still reached. The handler has no
  \<^verbatim>\<open>try\<close>/\<^verbatim>\<open>finally\<close>: when \<^verbatim>\<open>sendResponse\<close> throws, the exception leaves
  the handler after the hangup and the send, and \<^verbatim>\<open>close\<close> is never called.
\<close>

theorem hangupHandler_close_skipped_when_send_throws:
  "hangupHandler
      \<lparr>hangup_outcome = (\<lambda>_. Resolves), sendResponse_throws = (\<lambda>_. True), close_throws = False\<rparr>
      True \<lparr>sessionRef = Some ''S2''\<rparr> fresh_world =
     (Inl ResponseChannelFault,
      \<lparr>calls = [AriHangup (Some ''S2''), SendResponse (HangupResponse (Some ''S2''))],
       listeners = []\<rparr>)"
  by (simp add: handler_defs)

text \<open>
  Claim C4, amended. On an active session \<^verbatim>\<open>voiceClient.close()\<close> is among the calls
  of \<open>hangupHandler\<close> exactly when neither the ARI hangup call nor
  \<^verbatim>\<open>sendResponse\<close> throws. A hangup whose promise rejects later does not prevent the
  close, because the promise is not awaited; an exception thrown by either call does.
\<close>

theorem hangupHandler_close_reached_iff:
  "Close \<in> set (new_calls w (snd (hangupHandler env True hangupReq w))) \<longleftrightarrow>
     hangup_outcome env (sessionRef hangupReq) \<noteq> ThrowsSync \<and>
     \<not> sendResponse_throws env (HangupResponse (sessionRef hangupReq))"
  by (simp add: hangupHandler_def seq_def ari_channels_hangup_def sendResponse_def
      voiceClient_close_def log_call_def new_calls_def)

theorem hangupHandler_close_reached_witness:
  "Close \<in> set (new_calls fresh_world (snd (hangupHandler
      \<lparr>hangup_outcome = (\<lambda>_. Rejects), sendResponse_throws = (\<lambda>_. False), close_throws = False\<rparr>
      True \<lparr>sessionRef = Some ''S2''\<rparr> fresh_world)))
   \<and> Close \<notin> set (new_calls fresh_world (snd (hangupHandler
      \<lparr>hangup_outcome = (\<lambda>_. ThrowsSync), sendResponse_throws = (\<lambda>_. False), close_throws = False\<rparr>
      True \<lparr>sessionRef = Some ''S2''\<rparr> fresh_world)))"
  using hangupHandler_close_reached_iff
    [where w = fresh_world and hangupReq = "\<lparr>sessionRef = Some ''S2''\<rparr>"
       and env = "\<lparr>hangup_outcome = (\<lambda>_. Rejects), sendResponse_throws = (\<lambda>_. False),
                    close_throws = False\<rparr>"]
    hangupHandler_close_reached_iff
    [where w = fresh_world and hangupReq = "\<lparr>sessionRef = Some ''S2''\<rparr>"
       and env = "\<lparr>hangup_outcome = (\<lambda>_. ThrowsSync), sendResponse_throws = (\<lambda>_. False),
                    close_throws = False\<rparr>"]
  by simp

subsection \<open>The start-stream handler\<close>

text \<open>
  Claim C1. Every start-stream acknowledgment, and every payload of the stream, should
  carry a stream reference generated for that stream. The handler writes the literal
  \<^verbatim>\<open>"fixme"\<close> instead, as its own comment (\<^verbatim>\<open>FIXME: ... correct streamRef\<close>) says:
  two streams started for the sessions S1 and S2 are acknowledged with the same
  reference, and the payload of a chunk carries it as well.
\<close>

theorem streamHandler_streamRef_is_placeholder:
  "new_calls fresh_world (snd (streamHandler quiet_env
      \<lparr>sessionRef = Some ''S1'', direction = None, format = None\<rparr> fresh_world)) =
     [OnData (StreamPayloadListener (Some ''S1'') ''WAV''),
      SendResponse (StartStreamResponse (Some ''S1'') ''fixme'')]
   \<and> new_calls fresh_world (snd (streamHandler quiet_env
      \<lparr>sessionRef = Some ''S2'', direction = Some ''OUT'', format = None\<rparr> fresh_world)) =
     [OnData (StreamPayloadListener (Some ''S2'') ''WAV''),
      SendResponse (StartStreamResponse (Some ''S2'') ''fixme'')]
   \<and> calls (snd (emit_all quiet_env [''chunk'']
        (snd (streamHandler quiet_env
          \<lparr>sessionRef = Some ''S1'', direction = None, format = None\<rparr> fresh_world)))) =
     [OnData (StreamPayloadListener (Some ''S1'') ''WAV''),
      SendResponse (StartStreamResponse (Some ''S1'') ''fixme''),
      SendResponse (StreamPayload (Some ''S1'') ''AUDIO_OUT'' ''chunk'' ''fixme'' ''WAV'')]"
  by (simp add: handler_defs)



text \<open>
  Claim C3, as stated: with direction OUT or BOTH every chunk results in exactly one
  \<^verbatim>\<open>streamPayload\<close>, none duplicated. The handler adds a listener on every
  start-stream request and nothing removes or replaces an earlier one: after two
  requests for the session S1 on the same voice client, one chunk is sent twice.
\<close>

theorem streamHandler_second_start_duplicates_chunks:
  "calls (snd (emit_all quiet_env [''a'']
      (snd (streamHandler quiet_env
         \<lparr>sessionRef = Some ''S1'', direction = Some ''OUT'', format = None\<rparr>
         (snd (streamHandler quiet_env
            \<lparr>sessionRef = Some ''S1'', direction = Some ''OUT'', format = None\<rparr>
            fresh_world)))))) =
     [OnData (StreamPayloadListener (Some ''S1'') ''WAV''),
      SendResponse (StartStreamResponse (Some ''S1'') ''fixme''),
      OnData (StreamPayloadListener (Some ''S1'') ''WAV''),
      SendResponse (StartStreamResponse (Some ''S1'') ''fixme''),
      SendResponse (StreamPayload (Some ''S1'') ''AUDIO_OUT'' ''a'' ''fixme'' ''WAV''),
      SendResponse (StreamPayload (Some ''S1'') ''AUDIO_OUT'' ''a'' ''fixme'' ''WAV'')]"
  by (simp add: handler_defs)

text \<open>
  Claim C3, amended. Let a start-stream request pass validation with effective direction
  OUT or BOTH, and let the response channel accept every message. Then every chunk the
  transcriptions stream emits afterwards results in one \<^verbatim>\<open>streamPayload\<close> for each
  listener on the stream: those of earlier start-stream requests on the same voice
  client, in the order they were registered, and then the one of this request, which
  carries the request's \<^verbatim>\<open>sessionRef\<close>, the type \<^verbatim>\<open>AUDIO_OUT\<close>, the chunk as
  data and the effective format. Chunks are served in the order they were produced, none
  dropped, reordered or coalesced, and nothing else is sent. When the stream had no
  listener before the request, each chunk results in exactly one \<^verbatim>\<open>streamPayload\<close>.
\<close>

theorem streamHandler_relays_chunks_to_every_listener:
  assumes "streamRequestSchema_parse request = Inr ()"
      and "or_default (direction request) StreamDirection_BOTH = StreamDirection_OUT
           \<or> or_default (direction request) StreamDirection_BOTH = StreamDirection_BOTH"
      and "\<And>r. \<not> sendResponse_throws env r"
  shows "emit_all env chunks (snd (streamHandler env request w)) =
       (Inr (), (snd (streamHandler env request w))
          \<lparr>calls := calls (snd (streamHandler env request w)) @
             concat (map (\<lambda>d. map (listener_payload d)
                (listeners w @ [StreamPayloadListener (sessionRef request)
                    (or_default (format request) StreamAudioFormat_WAV)])) chunks)\<rparr>)
     \<and> (listeners w = [] \<longrightarrow>
          emit_all env chunks (snd (streamHandler env request w)) =
            (Inr (), (snd (streamHandler env request w))
               \<lparr>calls := calls (snd (streamHandler env request w)) @
                  map (\<lambda>d. SendResponse (StreamPayload (sessionRef request)
                         StreamMessageType_AUDIO_OUT d ''fixme''
                         (or_default (format request) StreamAudioFormat_WAV))) chunks\<rparr>))"
proof -
  let ?l = "StreamPayloadListener (sessionRef request)
      (or_default (format request) StreamAudioFormat_WAV)"
  have ls: "listeners (snd (streamHandler env request w)) = listeners w @ [?l]"
    by (rule streamHandler_listeners [OF assms(1) assms(2)])
  have every: "emit_all env chunks (snd (streamHandler env request w)) =
       (Inr (), (snd (streamHandler env request w))
          \<lparr>calls := calls (snd (streamHandler env request w)) @
             concat (map (\<lambda>d. map (listener_payload d) (listeners w @ [?l])) chunks)\<rparr>)"
    using emit_all_quiet [OF assms(3), of chunks "snd (streamHandler env request w)"] ls
    by simp
  have one: "concat (map (\<lambda>d. map (listener_payload d) [?l]) chunks) =
      map (\<lambda>d. SendResponse (StreamPayload (sessionRef request)
             StreamMessageType_AUDIO_OUT d ''fixme''
             (or_default (format request) StreamAudioFormat_WAV))) chunks"
    by (induction chunks) simp_all
  show ?thesis
    using every one by simp
qed

theorem streamHandler_relays_chunks_to_every_listener_witness:
  "streamRequestSchema_parse
      \<lparr>sessionRef = Some ''S1'', direction = Some ''OUT'', format = Some ''WAV''\<rparr> = Inr ()
   \<and> or_default (direction
        \<lparr>sessionRef = Some ''S1'', direction = Some ''OUT'', format = Some ''WAV''\<rparr>)
        StreamDirection_BOTH = StreamDirection_OUT
   \<and> (\<forall>r. \<not> sendResponse_throws quiet_env r)
   \<and> listeners fresh_world = []
   \<and> calls (snd (emit_all quiet_env [''a'', ''b'', ''a'']
        (snd (streamHandler quiet_env
          \<lparr>sessionRef = Some ''S1'', direction = Some ''OUT'', format = Some ''WAV''\<rparr>
          fresh_world)))) =
     [OnData (StreamPayloadListener (Some ''S1'') ''WAV''),
      SendResponse (StartStreamResponse (Some ''S1'') ''fixme''),
      SendResponse (StreamPayload (Some ''S1'') ''AUDIO_OUT'' ''a'' ''fixme'' ''WAV''),
      SendResponse (StreamPayload (Some ''S1'') ''AUDIO_OUT'' ''b'' ''fixme'' ''WAV''),
      SendResponse (StreamPayload (Some ''S1'') ''AUDIO_OUT'' ''a'' ''fixme'' ''WAV'')]
   \<and> calls (snd (emit_all quiet_env [''a'', ''b'']
        (snd (streamHandler quiet_env
          \<lparr>sessionRef = Some ''S1'', direction = Some ''OUT'', format = Some ''WAV''\<rparr>
          \<lparr>calls = [], listeners = [StreamPayloadListener (Some ''S0'') ''WAV'']\<rparr>)))) =
     [OnData (StreamPayloadListener (Some ''S1'') ''WAV''),
      SendResponse (StartStreamResponse (Some ''S1'') ''fixme''),
      SendResponse (StreamPayload (Some ''S0'') ''AUDIO_OUT'' ''a'' ''fixme'' ''WAV''),
      SendResponse (StreamPayload (Some ''S1'') ''AUDIO_OUT'' ''a'' ''fixme'' ''WAV''),
      SendResponse (StreamPayload (Some ''S0'') ''AUDIO_OUT'' ''b'' ''fixme'' ''WAV''),
      SendResponse (StreamPayload (Some ''S1'') ''AUDIO_OUT'' ''b'' ''fixme'' ''WAV'')]"
proof -
  let ?req = "\<lparr>sessionRef = Some ''S1'', direction = Some ''OUT'', format = Some ''WAV''\<rparr>"
  let ?busy = "\<lparr>calls = [], listeners = [StreamPayloadListener (Some ''S0'') ''WAV'']\<rparr>
                :: string world"
  have valid: "streamRequestSchema_parse ?req = Inr ()"
    by (simp add: handler_defs)
  have dir: "or_default (direction ?req) StreamDirection_BOTH = StreamDirection_OUT
           \<or> or_default (direction ?req) StreamDirection_BOTH = StreamDirection_BOTH"
    by (simp add: handler_defs)
  have fresh: "listeners fresh_world = []"
    by (simp add: fresh_world_def)
  have quiet: "\<And>r. \<not> sendResponse_throws quiet_env r"
    by (simp add: quiet_env_def)
  have run: "calls (snd (streamHandler quiet_env ?req fresh_world)) =
      [OnData (StreamPayloadListener (Some ''S1'') ''WAV''),
       SendResponse (StartStreamResponse (Some ''S1'') ''fixme'')]"
    by (simp add: handler_defs)
  have run_busy: "calls (snd (streamHandler quiet_env ?req ?busy)) =
      [OnData (StreamPayloadListener (Some ''S1'') ''WAV''),
       SendResponse (StartStreamResponse (Some ''S1'') ''fixme'')]"
    by (simp add: handler_defs)
  show ?thesis
    using valid fresh quiet run run_busy
      streamHandler_relays_chunks_to_every_listener
        [OF valid dir quiet, of "[''a'', ''b'', ''a'']" fresh_world]
      streamHandler_relays_chunks_to_every_listener
        [OF valid dir quiet, of "[''a'', ''b'']" ?busy]
    by (simp add: handler_defs)
qed

text \<open>
  Claim C9. A start-stream request with direction IN should end in an explicit
  not-implemented outcome. The handler (whose comment reads \<^verbatim>\<open>FIXME: Implement stream
  IN\<close>) skips the subscription, still sends the \<^verbatim>\<open>startStreamResponse\<close> and
  completes normally: the caller is told the stream has started and nothing was set up.
\<close>

theorem streamHandler_direction_IN_acknowledged_silently:
  "streamHandler quiet_env
      \<lparr>sessionRef = Some ''S3'', direction = Some ''IN'', format = None\<rparr> fresh_world =
     (Inr Completed,
      \<lparr>calls = [SendResponse (StartStreamResponse (Some ''S3'') ''fixme'')], listeners = []\<rparr>)"
  by (simp add: handler_defs sublist_code(3))

text \<open>
  Claim C7. When a request carries a direction or a format outside its enum, the handler
  wrapped by \<^verbatim>\<open>withErrorHandling\<close> ends with an error response built from the
  validation error, which names at least one offending field, and has made no call on
  its collaborators; and for no request at all does an exception leave the wrapped
  handler.
\<close>

theorem streamHandler_validation_failure_is_error_response:
  assumes "(\<exists>d. direction request = Some d \<and> d \<notin> set StreamDirection_values)
         \<or> (\<exists>f. format request = Some f \<and> f \<notin> set StreamAudioFormat_values)"
  shows "(\<exists>issues. issues \<noteq> [] \<and>
            streamHandler env request w = (Inr (ErrorResponse (ZodError issues)), w))
       \<and> (\<forall>request' w'. \<not> isl (fst (streamHandler env request' w')))"
proof
  have bad: "streamRequestSchema_issues request \<noteq> []"
    using assms by (auto simp: streamRequestSchema_issues_def nativeEnum_optional_def)
  then have "streamHandler env request w =
      (Inr (ErrorResponse (ZodError (streamRequestSchema_issues request))), w)"
    by (simp add: streamHandler_def withErrorHandling_def streamHandler_body_def
        streamRequestSchema_parse_def)
  with bad
  show "\<exists>issues. issues \<noteq> [] \<and>
            streamHandler env request w = (Inr (ErrorResponse (ZodError issues)), w)"
    by blast
next
  show "\<forall>request' w'. \<not> isl (fst (streamHandler env request' w'))"
    by (simp add: streamHandler_def withErrorHandling_def split: prod.splits sum.splits)
qed

theorem streamHandler_validation_failure_witness:
  "direction \<lparr>sessionRef = Some ''S1'', direction = Some ''SIDEWAYS'', format = None\<rparr>
      = Some ''SIDEWAYS''
   \<and> ''SIDEWAYS'' \<notin> set StreamDirection_values
   \<and> streamHandler quiet_env
        \<lparr>sessionRef = Some ''S1'', direction = Some ''SIDEWAYS'', format = None\<rparr> fresh_world =
       (Inr (ErrorResponse (ZodError [''direction''])), fresh_world)"
  using streamHandler_validation_failure_is_error_response
    [where request = "\<lparr>sessionRef = Some ''S1'', direction = Some ''SIDEWAYS'', format = None\<rparr>"
       and env = quiet_env and w = fresh_world]
  by (simp add: handler_defs)

text \<open>
  Claim C8, as stated: a request without \<^verbatim>\<open>sessionRef\<close> fails schema validation.
  The schema has entries for \<^verbatim>\<open>direction\<close> and \<^verbatim>\<open>format\<close> only: the request
  with no field at all passes, and the handler subscribes and acknowledges with the
  absent \<^verbatim>\<open>sessionRef\<close>.
\<close>

theorem streamRequestSchema_accepts_missing_sessionRef:
  "streamRequestSchema_parse \<lparr>sessionRef = None, direction = None, format = None\<rparr> = Inr ()
   \<and> streamHandler quiet_env \<lparr>sessionRef = None, direction = None, format = None\<rparr> fresh_world =
     (Inr Completed,
      \<lparr>calls = [OnData (StreamPayloadListener None ''WAV''),
                SendResponse (StartStreamResponse None ''fixme'')],
       listeners = [StreamPayloadListener None ''WAV'']\<rparr>)"
  by (simp add: handler_defs)

text \<open>
  Claim C8, amended. Schema validation in \<open>streamHandler\<close> looks at \<^verbatim>\<open>direction\<close>
  and \<^verbatim>\<open>format\<close> only: its outcome does not change with \<^verbatim>\<open>sessionRef\<close>, and
  it succeeds exactly when each of the two fields is absent or a member of its enum.
\<close>

theorem streamRequestSchema_ignores_sessionRef:
  "streamRequestSchema_parse (request\<lparr>sessionRef := s\<rparr>) = streamRequestSchema_parse request
   \<and> (streamRequestSchema_parse request = Inr () \<longleftrightarrow>
        (direction request = None
           \<or> (\<exists>d. direction request = Some d \<and> d \<in> set StreamDirection_values))
      \<and> (format request = None
           \<or> (\<exists>f. format request = Some f \<and> f \<in> set StreamAudioFormat_values)))"
  by (auto simp: streamRequestSchema_parse_def streamRequestSchema_issues_def
      nativeEnum_optional_def split: option.splits)

theorem streamRequestSchema_ignores_sessionRef_witness:
  "streamRequestSchema_parse
      (\<lparr>sessionRef = Some ''S1'', direction = Some ''BOTH'', format = Some ''WAV''\<rparr>
         \<lparr>sessionRef := None\<rparr>) = Inr ()
   \<and> streamRequestSchema_parse
      (\<lparr>sessionRef = Some ''S1'', direction = Some ''UP'', format = Some ''WAV''\<rparr>
         \<lparr>sessionRef := None\<rparr>) = Inl (ZodError [''direction''])"
  using streamRequestSchema_ignores_sessionRef
    [where request = "\<lparr>sessionRef = Some ''S1'', direction = Some ''BOTH'', format = Some ''WAV''\<rparr>"
       and s = None]
    streamRequestSchema_ignores_sessionRef
    [where request = "\<lparr>sessionRef = Some ''S1'', direction = Some ''UP'', format = Some ''WAV''\<rparr>"
       and s = None]
  by (simp add: handler_defs)

subsection \<open>Access check\<close>

text \<open>The two nested searches of \<open>hasAccess\<close> as one existence statement.\<close>

lemma hasAccess_char:
  "hasAccess roles acc method \<longleftrightarrow>
      (\<exists>a \<in> set acc. \<exists>r \<in> set roles. name r = role a \<and> method \<in> set (access r))"
  by (auto simp: hasAccess_def list_ex_iff find_None_iff)

text \<open>
  Claim C10. \<open>hasAccess\<close> holds exactly when some entry of the access list names a role
  of the roles table whose access list contains the method. For the empty access list it
  is false for every method, and entries whose role name is not in the roles table never
  grant access: leaving them out does not change the answer, and a list made only of
  such entries is refused.
\<close>

theorem hasAccess_iff_some_entry_grants:
  "(hasAccess roles acc method \<longleftrightarrow>
      (\<exists>a \<in> set acc. \<exists>r \<in> set roles. name r = role a \<and> method \<in> set (access r)))
   \<and> \<not> hasAccess roles [] method
   \<and> hasAccess roles acc method =
       hasAccess roles (filter (\<lambda>a. role a \<in> set (map name roles)) acc) method
   \<and> ((\<forall>a \<in> set acc. role a \<notin> set (map name roles)) \<longrightarrow> \<not> hasAccess roles acc method)"
proof (intro conjI)
  show "hasAccess roles acc method \<longleftrightarrow>
      (\<exists>a \<in> set acc. \<exists>r \<in> set roles. name r = role a \<and> method \<in> set (access r))"
    by (rule hasAccess_char)
  show "\<not> hasAccess roles [] method"
    by (simp add: hasAccess_char)
  show "hasAccess roles acc method =
       hasAccess roles (filter (\<lambda>a. role a \<in> set (map name roles)) acc) method"
    unfolding hasAccess_char by force
  show "(\<forall>a \<in> set acc. role a \<notin> set (map name roles)) \<longrightarrow> \<not> hasAccess roles acc method"
    unfolding hasAccess_char by force
qed

theorem hasAccess_witness:
  "hasAccess [\<lparr>name = ''OWNER'', access = [''/api/ListAgents'', ''/api/GetAgent'']\<rparr>,
              \<lparr>name = ''USER'', access = [''/api/GetAgent'']\<rparr>]
     [\<lparr>role = ''GHOST''\<rparr>, \<lparr>role = ''USER''\<rparr>] ''/api/GetAgent''
   \<and> \<not> hasAccess [\<lparr>name = ''OWNER'', access = [''/api/ListAgents'', ''/api/GetAgent'']\<rparr>,
              \<lparr>name = ''USER'', access = [''/api/GetAgent'']\<rparr>]
     [\<lparr>role = ''GHOST''\<rparr>, \<lparr>role = ''USER''\<rparr>] ''/api/ListAgents''
   \<and> ''GHOST'' \<notin> set (map name
        [\<lparr>name = ''OWNER'', access = [''/api/ListAgents'', ''/api/GetAgent'']\<rparr>,
         \<lparr>name = ''USER'', access = [''/api/GetAgent'']\<rparr>])
   \<and> \<not> hasAccess [\<lparr>name = ''OWNER'', access = [''/api/ListAgents'', ''/api/GetAgent'']\<rparr>,
              \<lparr>name = ''USER'', access = [''/api/GetAgent'']\<rparr>]
     [\<lparr>role = ''GHOST''\<rparr>] ''/api/GetAgent''"
  using hasAccess_iff_some_entry_grants
    [of "[\<lparr>name = ''OWNER'', access = [''/api/ListAgents'', ''/api/GetAgent'']\<rparr>,
          \<lparr>name = ''USER'', access = [''/api/GetAgent'']\<rparr>]"
        "[\<lparr>role = ''GHOST''\<rparr>]" "''/api/GetAgent''"]
  by (simp add: hasAccess_def)

end
